theory Spec2Isabelle
  imports Main "HOL-Library.Word"
begin

section \<open>OCSP certificate identifiers (ocsp\_lib.c)\<close>

text \<open>
  The file \<^verbatim>\<open>ocsp_lib.c\<close> builds an \<^verbatim>\<open>OCSP_CERTID\<close> from a digest, an issuer
  name, an issuer public key and a serial number. Everything it calls lives in the
  crypto library it is linked against: the digests, the object table, the allocators
  and the X.509 accessors. The embedding keeps the two functions of the file as they
  are written and takes the library as a parameter, a record of its entry points. A C
  pointer that may be \<^verbatim>\<open>NULL\<close> is an \<open>option\<close>; a function that returns \<^verbatim>\<open>NULL\<close> or
  \<^verbatim>\<open>0\<close> on failure returns \<open>None\<close>.
\<close>

subsection \<open>Data\<close>

type_synonym byte = "8 word"

text \<open>
  \<^verbatim>\<open>ASN1_STRING\<close> (also \<^verbatim>\<open>ASN1_BIT_STRING\<close>, \<^verbatim>\<open>ASN1_OCTET_STRING\<close>,
  \<^verbatim>\<open>ASN1_INTEGER\<close>): the C struct holds \<^verbatim>\<open>length\<close>, \<^verbatim>\<open>type\<close>, \<^verbatim>\<open>data\<close> and
  \<^verbatim>\<open>flags\<close>. The pair of \<^verbatim>\<open>data\<close> and \<^verbatim>\<open>length\<close> is one byte list here, so
  \<^verbatim>\<open>s->length\<close> is \<open>length (data s)\<close>. The tag is \<open>str_type\<close>; the content octets
  are \<open>data\<close>; neither the tag nor the length octets of an encoding are part of
  \<open>data\<close>.
\<close>

record ASN1_STRING =
  str_type :: int
  data :: "byte list"
  flags :: int

record ASN1_OBJECT =
  nid :: int
  oid :: "byte list"

text \<open>\<^verbatim>\<open>ASN1_TYPE\<close>: a tag and a pointer to the value (\<^verbatim>\<open>NULL\<close> for the NULL type).\<close>

record ASN1_TYPE =
  type :: int
  value_ptr :: "ASN1_STRING option"

record X509_ALGOR =
  algorithm :: "ASN1_OBJECT option"
  parameter :: "ASN1_TYPE option"

text \<open>
  \<^verbatim>\<open>struct ocsp_cert_id_st\<close>: the four members that \<^verbatim>\<open>OCSP_cert_id_new\<close> reaches
  through \<^verbatim>\<open>cid->\<close>.
\<close>

record OCSP_CERTID =
  hashAlgorithm :: X509_ALGOR
  issuerNameHash :: ASN1_STRING
  issuerKeyHash :: ASN1_STRING
  serialNumber :: ASN1_STRING

text \<open>
  A digest descriptor, as far as this file looks at it: \<^verbatim>\<open>EVP_MD_type\<close> is its NID,
  \<^verbatim>\<open>EVP_MD_size\<close> its declared output length in bytes.
\<close>

record EVP_MD =
  EVP_MD_type :: int
  EVP_MD_size :: nat

text \<open>
  A certificate, as far as this file looks at it: the four accessors that
  \<^verbatim>\<open>OCSP_cert_to_id\<close> calls. The type \<open>'n\<close> of names (\<^verbatim>\<open>X509_NAME\<close>) is left open.
\<close>

record 'n X509 =
  X509_get_issuer_name :: 'n
  X509_get_subject_name :: 'n
  X509_get0_serialNumber :: ASN1_STRING
  X509_get0_pubkey_bitstr :: ASN1_STRING

text \<open>
  The places where \<^verbatim>\<open>OCSP_cert_id_new\<close> has the library copy bytes into a string of
  the new identifier. Each copy allocates, and each may fail on its own.
\<close>

datatype copy_site = Into_issuerNameHash | Into_issuerKeyHash | Into_serialNumber

text \<open>
  The library, for one call. \<open>OCSP_CERTID_new\<close> and \<open>ASN1_TYPE_new\<close> give a fresh object
  or \<open>None\<close>; \<open>OBJ_nid2obj\<close> is the object table; \<open>X509_NAME_digest\<close> encodes a name and
  hashes the encoding; \<open>EVP_Digest\<close> hashes a buffer; both give the bytes written to the
  output buffer (their number is the length the C functions report through \<^verbatim>\<open>&i\<close>) or
  \<open>None\<close>. \<open>alloc_ok\<close> says whether the allocation of each copy succeeds.
\<close>

record 'n libcrypto =
  EVP_sha1 :: EVP_MD
  OCSP_CERTID_new :: "OCSP_CERTID option"
  OBJ_nid2obj :: "int \<Rightarrow> ASN1_OBJECT option"
  ASN1_TYPE_new :: "ASN1_TYPE option"
  X509_NAME_digest :: "'n \<Rightarrow> EVP_MD \<Rightarrow> byte list option"
  EVP_Digest :: "byte list \<Rightarrow> EVP_MD \<Rightarrow> byte list option"
  alloc_ok :: "copy_site \<Rightarrow> bool"

definition NID_undef :: int where
  "NID_undef = 0"

definition V_ASN1_NULL :: int where
  "V_ASN1_NULL = 5"

subsection \<open>Library calls with a fixed meaning\<close>

text \<open>
  \<^verbatim>\<open>ASN1_OCTET_STRING_set(str, data, len)\<close> replaces the content of \<open>str\<close> by a copy of
  the \<open>len\<close> bytes at \<open>data\<close> and leaves its type and flags; it returns 0 when the
  buffer cannot be allocated. The flag \<open>ok\<close> is the outcome of that allocation.
\<close>

definition ASN1_OCTET_STRING_set :: "bool \<Rightarrow> ASN1_STRING \<Rightarrow> byte list \<Rightarrow> ASN1_STRING option" where
  "ASN1_OCTET_STRING_set ok str d = (if ok then Some (str\<lparr>data := d\<rparr>) else None)"

text \<open>
  \<^verbatim>\<open>ASN1_STRING_copy(dst, str)\<close> makes \<open>dst\<close> a copy of \<open>str\<close>: its type, its
  content and its flags; it returns 0 when the buffer for the content cannot be allocated.
\<close>

definition ASN1_STRING_copy :: "bool \<Rightarrow> ASN1_STRING \<Rightarrow> ASN1_STRING \<Rightarrow> ASN1_STRING option" where
  "ASN1_STRING_copy ok dst str =
     (if ok then Some (dst\<lparr>str_type := str_type str, data := data str, flags := flags str\<rparr>)
      else None)"

subsection \<open>The two functions of the file\<close>

text \<open>
  \<^verbatim>\<open>OCSP_cert_id_new\<close>. Every \<^verbatim>\<open>goto err\<close> frees the identifier and returns
  \<^verbatim>\<open>NULL\<close>: the branch is \<open>None\<close>, and \<^verbatim>\<open>NULL\<close> is the only failure the function
  reports. \<^verbatim>\<open>alg\<close> points into the identifier, so the assignments through it are
  updates of \<open>hashAlgorithm\<close>. \<^verbatim>\<open>ASN1_OBJECT_free\<close> releases the object the fresh
  identifier came with; the member is assigned again before anything reads it. The
  buffer \<^verbatim>\<open>md\<close> (of \<^verbatim>\<open>EVP_MAX_MD_SIZE\<close> bytes, the library's own bound on any
  digest) and the length \<^verbatim>\<open>i\<close> are written by each digest call and read by the copy
  that follows it: the bytes copied are the bytes the digest call produced.
\<close>

definition OCSP_cert_id_new ::
  "'n libcrypto \<Rightarrow> EVP_MD \<Rightarrow> 'n \<Rightarrow> ASN1_STRING \<Rightarrow> ASN1_STRING option \<Rightarrow> OCSP_CERTID option" where
  "OCSP_cert_id_new L dgst issuerName issuerKey serialNum =
     (case OCSP_CERTID_new L of
        None \<Rightarrow> None
      | Some cid \<Rightarrow>
          let alg = hashAlgorithm cid;
              nid = EVP_MD_type dgst
          in if nid = NID_undef then None
             else (case OBJ_nid2obj L nid of
               None \<Rightarrow> None
             | Some obj \<Rightarrow>
                 let alg = alg\<lparr>algorithm := Some obj\<rparr>
                 in (case ASN1_TYPE_new L of
                    None \<Rightarrow> None
                  | Some par \<Rightarrow>
                      let alg = alg\<lparr>parameter := Some (par\<lparr>type := V_ASN1_NULL\<rparr>)\<rparr>;
                          cid = cid\<lparr>hashAlgorithm := alg\<rparr>
                      in (case X509_NAME_digest L issuerName dgst of
                            None \<Rightarrow> None
                          | Some md \<Rightarrow>
                              (case ASN1_OCTET_STRING_set (alloc_ok L Into_issuerNameHash)
                                      (issuerNameHash cid) md of
                                 None \<Rightarrow> None
                               | Some nameHash \<Rightarrow>
                                   let cid = cid\<lparr>issuerNameHash := nameHash\<rparr>
                                   in (case EVP_Digest L (data issuerKey) dgst of
                                         None \<Rightarrow> None
                                       | Some md \<Rightarrow>
                                           (case ASN1_OCTET_STRING_set (alloc_ok L Into_issuerKeyHash)
                                                   (issuerKeyHash cid) md of
                                              None \<Rightarrow> None
                                            | Some keyHash \<Rightarrow>
                                                let cid = cid\<lparr>issuerKeyHash := keyHash\<rparr>
                                                in (case serialNum of
                                                      None \<Rightarrow> Some cid
                                                    | Some sn \<Rightarrow>
                                                        (case ASN1_STRING_copy (alloc_ok L Into_serialNumber)
                                                                (serialNumber cid) sn of
                                                           None \<Rightarrow> None
                                                         | Some sn' \<Rightarrow> Some (cid\<lparr>serialNumber := sn'\<rparr>))))))))))"

text \<open>
  \<^verbatim>\<open>OCSP_cert_to_id\<close>. \<open>dgst\<close> and \<open>subject\<close> may be \<^verbatim>\<open>NULL\<close>; \<open>issuer\<close> is read
  on every path, so it is a certificate.
\<close>

definition OCSP_cert_to_id ::
  "'n libcrypto \<Rightarrow> EVP_MD option \<Rightarrow> 'n X509 option \<Rightarrow> 'n X509 \<Rightarrow> OCSP_CERTID option" where
  "OCSP_cert_to_id L dgst subject issuer =
     (let dgst = (case dgst of None \<Rightarrow> EVP_sha1 L | Some d \<Rightarrow> d);
          (iname, serial) =
             (case subject of
                Some sub \<Rightarrow> (X509_get_issuer_name sub, Some (X509_get0_serialNumber sub))
              | None \<Rightarrow> (X509_get_subject_name issuer, None));
          ikey = X509_get0_pubkey_bitstr issuer
      in OCSP_cert_id_new L dgst iname ikey serial)"

text \<open>
  The claim that \<^verbatim>\<open>OCSP_cert_to_id\<close> only extracts fields and delegates, written out
  as the claim words it: the digest with SHA-1 in place of \<^verbatim>\<open>NULL\<close>, the name and the
  serial number chosen by the presence of the subject, the issuer's public-key bit string.
\<close>

definition cert_to_id_by_delegation ::
  "'n libcrypto \<Rightarrow> EVP_MD option \<Rightarrow> 'n X509 option \<Rightarrow> 'n X509 \<Rightarrow> OCSP_CERTID option" where
  "cert_to_id_by_delegation L d s i =
     OCSP_cert_id_new L
       (case d of None \<Rightarrow> EVP_sha1 L | Some m \<Rightarrow> m)
       (case s of None \<Rightarrow> X509_get_subject_name i | Some c \<Rightarrow> X509_get_issuer_name c)
       (X509_get0_pubkey_bitstr i)
       (map_option X509_get0_serialNumber s)"

subsection \<open>Response status codes (CCollectionSigning\_ocsp.h)\<close>

definition OCSP_RESPONSE_STATUS_SUCCESSFUL :: int where
  "OCSP_RESPONSE_STATUS_SUCCESSFUL = 0"

definition OCSP_RESPONSE_STATUS_MALFORMEDREQUEST :: int where
  "OCSP_RESPONSE_STATUS_MALFORMEDREQUEST = 1"

definition OCSP_RESPONSE_STATUS_INTERNALERROR :: int where
  "OCSP_RESPONSE_STATUS_INTERNALERROR = 2"

definition OCSP_RESPONSE_STATUS_TRYLATER :: int where
  "OCSP_RESPONSE_STATUS_TRYLATER = 3"

definition OCSP_RESPONSE_STATUS_SIGREQUIRED :: int where
  "OCSP_RESPONSE_STATUS_SIGREQUIRED = 5"

definition OCSP_RESPONSE_STATUS_UNAUTHORIZED :: int where
  "OCSP_RESPONSE_STATUS_UNAUTHORIZED = 6"

subsection \<open>Reading a response from a byte stream\<close>

text \<open>
  \<^verbatim>\<open>d2i_OCSP_RESPONSE_bio\<close> is one line: it hands the stream and the decoder
  \<^verbatim>\<open>d2i_OCSP_RESPONSE\<close> to \<^verbatim>\<open>ASN1_d2i_bio_of\<close>. The header under
  \<^verbatim>\<open>include/\<close> declares the decoder and nothing more; the macro and the reader
  behind it are in \<^verbatim>\<open>CCollectionSigning_asn1.h\<close> and its implementation, which are not
  among the sources this development has.
\<close>

text \<open>
  Modelled from the spec: the errors of the envelope codec, which the C interface (a
  pointer, or \<^verbatim>\<open>NULL\<close>) does not name.
\<close>

datatype codec_error =
  MalformedEncoding | UnsupportedResponseType | UnsupportedStatus | TrailingDataError

text \<open>
  Modelled from the spec: the tag-and-length primitive of the DER engine, which the
  sources do not contain. \<open>der_header\<close> reads the identifier octet and a definite length
  (short form, or long form with its count of length octets, read big-endian by
  \<open>be_nat\<close>) and gives the size of the header and the declared size of the content; a
  buffer too short for its own header has none.
\<close>

definition be_nat :: "byte list \<Rightarrow> nat" where
  "be_nat bs = foldl (\<lambda>acc b. acc * 256 + unat b) 0 bs"

definition der_header :: "byte list \<Rightarrow> (nat \<times> nat) option" where
  "der_header buf =
     (case buf of
        t # l # bs \<Rightarrow>
          if l < 0x80 then Some (2, unat l)
          else let n = unat l - 128
               in if n = 0 \<or> length bs < n then None
                  else Some (2 + n, be_nat (take n bs))
      | _ \<Rightarrow> None)"

text \<open>
  Modelled from the spec: \<^verbatim>\<open>ASN1_d2i_bio_of\<close> and the reader it expands to are missing
  from the sources. The spec's contract for \<open>decode_response\<close>: a truncated or
  structurally invalid buffer (the empty one too) is \<open>MalformedEncoding\<close>; the declared
  length is never trusted beyond the bytes that remain; bytes beyond the declared
  top-level structure are \<open>TrailingDataError\<close>; otherwise the structure goes to the
  decoder, whose own failures are returned as they are.
\<close>

definition ASN1_d2i_bio_of ::
  "(byte list \<Rightarrow> codec_error + 'r) \<Rightarrow> byte list \<Rightarrow> codec_error + 'r" where
  "ASN1_d2i_bio_of d2i inp =
     (case der_header inp of
        None \<Rightarrow> Inl MalformedEncoding
      | Some (hlen, len) \<Rightarrow>
          if length inp < hlen + len then Inl MalformedEncoding
          else if drop (hlen + len) inp \<noteq> [] then Inl TrailingDataError
          else d2i (take (hlen + len) inp))"

text \<open>
  \<^verbatim>\<open>d2i_OCSP_RESPONSE_bio(in, res)\<close>: \<open>inp\<close> is what the stream holds. The result is
  returned; the copy the C function stores through a non-null \<^verbatim>\<open>res\<close> is the same
  value.
\<close>

definition d2i_OCSP_RESPONSE_bio ::
  "(byte list \<Rightarrow> codec_error + 'r) \<Rightarrow> byte list \<Rightarrow> codec_error + 'r" where
  "d2i_OCSP_RESPONSE_bio d2i_OCSP_RESPONSE inp = ASN1_d2i_bio_of d2i_OCSP_RESPONSE inp"

subsection \<open>A small library and two certificates to run the functions on\<close>

definition toy_digest :: "byte list \<Rightarrow> EVP_MD \<Rightarrow> byte list option" where
  "toy_digest bs d = Some (map (\<lambda>k. sum_list bs + of_nat k) [0..<EVP_MD_size d])"

definition test_md :: EVP_MD where
  "test_md = \<lparr>EVP_MD_type = 672, EVP_MD_size = 4\<rparr>"

definition unregistered_md :: EVP_MD where
  "unregistered_md = \<lparr>EVP_MD_type = 0, EVP_MD_size = 16\<rparr>"

definition test_lib :: "string libcrypto" where
  "test_lib =
     \<lparr>EVP_sha1 = \<lparr>EVP_MD_type = 64, EVP_MD_size = 20\<rparr>,
      OCSP_CERTID_new =
        Some \<lparr>hashAlgorithm = \<lparr>algorithm = Some \<lparr>nid = 0, oid = []\<rparr>, parameter = None\<rparr>,
              issuerNameHash = \<lparr>str_type = 4, data = [], flags = 0\<rparr>,
              issuerKeyHash = \<lparr>str_type = 4, data = [], flags = 0\<rparr>,
              serialNumber = \<lparr>str_type = 2, data = [], flags = 0\<rparr>\<rparr>,
      OBJ_nid2obj =
        (\<lambda>n. if n = 64 then Some \<lparr>nid = 64, oid = [0x2B, 0x0E, 0x03, 0x02, 0x1A]\<rparr>
              else if n = 672
                then Some \<lparr>nid = 672, oid = [0x60, 0x86, 0x48, 0x01, 0x65, 0x03, 0x04, 0x02, 0x01]\<rparr>
              else None),
      ASN1_TYPE_new = Some \<lparr>type = - 1, value_ptr = None\<rparr>,
      X509_NAME_digest = (\<lambda>n d. toy_digest (map (\<lambda>c. of_nat (of_char c)) n) d),
      EVP_Digest = toy_digest,
      alloc_ok = (\<lambda>_. True)\<rparr>"

definition test_issuer :: "string X509" where
  "test_issuer =
     \<lparr>X509_get_issuer_name = ''Root'',
      X509_get_subject_name = ''CA'',
      X509_get0_serialNumber = \<lparr>str_type = 2, data = [0x01], flags = 0\<rparr>,
      X509_get0_pubkey_bitstr = \<lparr>str_type = 3, data = [0x30, 0x0A, 0x02], flags = 8\<rparr>\<rparr>"

definition test_subject :: "string X509" where
  "test_subject =
     \<lparr>X509_get_issuer_name = ''CA'',
      X509_get_subject_name = ''leaf'',
      X509_get0_serialNumber = \<lparr>str_type = 2, data = [0x12, 0x34], flags = 0\<rparr>,
      X509_get0_pubkey_bitstr = \<lparr>str_type = 3, data = [0x04, 0x05], flags = 8\<rparr>\<rparr>"

definition test_cid :: OCSP_CERTID where
  "test_cid =
     \<lparr>hashAlgorithm =
        \<lparr>algorithm = Some \<lparr>nid = 672, oid = [0x60, 0x86, 0x48, 0x01, 0x65, 0x03, 0x04, 0x02, 0x01]\<rparr>,
         parameter = Some \<lparr>type = 5, value_ptr = None\<rparr>\<rparr>,
      issuerNameHash = \<lparr>str_type = 4, data = [0x84, 0x85, 0x86, 0x87], flags = 0\<rparr>,
      issuerKeyHash = \<lparr>str_type = 4, data = [0x3C, 0x3D, 0x3E, 0x3F], flags = 0\<rparr>,
      serialNumber = \<lparr>str_type = 2, data = [0x12, 0x34], flags = 0\<rparr>\<rparr>"

text \<open>
  A digest that the object table knows by name only: the object for its NID carries no
  object identifier octets (as the table entry of MD5-SHA1, NID 114, does not).
\<close>

definition md5_sha1_md :: EVP_MD where
  "md5_sha1_md = \<lparr>EVP_MD_type = 114, EVP_MD_size = 36\<rparr>"

definition oidless_lib :: "string libcrypto" where
  "oidless_lib =
     test_lib\<lparr>OBJ_nid2obj :=
       (\<lambda>n. if n = 114 then Some \<lparr>nid = 114, oid = []\<rparr> else OBJ_nid2obj test_lib n)\<rparr>"

text \<open>
  A decoder to run the stream reader with: it accepts the encoding of a response that
  carries a status and nothing else.
\<close>

definition status_only_d2i :: "byte list \<Rightarrow> codec_error + int" where
  "status_only_d2i obj =
     (case obj of
        [t, l, e, n, c] \<Rightarrow>
          if t = 0x30 \<and> l = 0x03 \<and> e = 0x0A \<and> n = 0x01
          then (if uint c \<in> {OCSP_RESPONSE_STATUS_SUCCESSFUL, OCSP_RESPONSE_STATUS_MALFORMEDREQUEST,
                               OCSP_RESPONSE_STATUS_INTERNALERROR, OCSP_RESPONSE_STATUS_TRYLATER,
                               OCSP_RESPONSE_STATUS_SIGREQUIRED, OCSP_RESPONSE_STATUS_UNAUTHORIZED}
                then Inr (uint c) else Inl UnsupportedStatus)
          else Inl MalformedEncoding
      | _ \<Rightarrow> Inl MalformedEncoding)"

subsection \<open>When the construction succeeds\<close>

lemma OCSP_cert_id_new_Some_iff:
  "OCSP_cert_id_new L dgst issuerName issuerKey serialNum = Some c \<longleftrightarrow>
     (\<exists>cid obj par nh kh.
        OCSP_CERTID_new L = Some cid \<and>
        EVP_MD_type dgst \<noteq> NID_undef \<and>
        OBJ_nid2obj L (EVP_MD_type dgst) = Some obj \<and>
        ASN1_TYPE_new L = Some par \<and>
        X509_NAME_digest L issuerName dgst = Some nh \<and>
        alloc_ok L Into_issuerNameHash \<and>
        EVP_Digest L (data issuerKey) dgst = Some kh \<and>
        alloc_ok L Into_issuerKeyHash \<and>
        (serialNum \<noteq> None \<longrightarrow> alloc_ok L Into_serialNumber) \<and>
        c = \<lparr>hashAlgorithm = (hashAlgorithm cid)\<lparr>algorithm := Some obj,
                                parameter := Some (par\<lparr>type := V_ASN1_NULL\<rparr>)\<rparr>,
             issuerNameHash = (issuerNameHash cid)\<lparr>data := nh\<rparr>,
             issuerKeyHash = (issuerKeyHash cid)\<lparr>data := kh\<rparr>,
             serialNumber = (case serialNum of None \<Rightarrow> serialNumber cid | Some sn \<Rightarrow> sn)\<rparr>)"
  by (auto simp: OCSP_cert_id_new_def ASN1_OCTET_STRING_set_def ASN1_STRING_copy_def Let_def
           split: option.splits if_splits)

lemma OCSP_cert_to_id_unfold:
  "OCSP_cert_to_id L dgst subject issuer =
     OCSP_cert_id_new L
       (case dgst of None \<Rightarrow> EVP_sha1 L | Some d \<Rightarrow> d)
       (case subject of None \<Rightarrow> X509_get_subject_name issuer | Some sub \<Rightarrow> X509_get_issuer_name sub)
       (X509_get0_pubkey_bitstr issuer)
       (case subject of None \<Rightarrow> None | Some sub \<Rightarrow> Some (X509_get0_serialNumber sub))"
  by (simp add: OCSP_cert_to_id_def split: option.splits)

subsection \<open>The functions on the test certificates\<close>

lemma test_run:
  "OCSP_cert_to_id test_lib (Some test_md) (Some test_subject) test_issuer = Some test_cid"
  by (simp add: OCSP_cert_to_id_def OCSP_cert_id_new_def test_lib_def test_md_def
        test_subject_def test_issuer_def test_cid_def toy_digest_def NID_undef_def
        V_ASN1_NULL_def ASN1_OCTET_STRING_set_def ASN1_STRING_copy_def upt_rec)

lemma test_run_raw:
  "OCSP_cert_id_new test_lib test_md ''CA'' (X509_get0_pubkey_bitstr test_issuer)
     (Some (X509_get0_serialNumber test_subject)) = Some test_cid"
  by (simp add: OCSP_cert_id_new_def test_lib_def test_md_def
        test_subject_def test_issuer_def test_cid_def toy_digest_def NID_undef_def
        V_ASN1_NULL_def ASN1_OCTET_STRING_set_def ASN1_STRING_copy_def upt_rec)

lemma test_run_no_subject:
  "OCSP_cert_to_id test_lib (Some test_md) None test_issuer =
     Some (test_cid\<lparr>serialNumber := \<lparr>str_type = 2, data = [], flags = 0\<rparr>\<rparr>)"
  by (simp add: OCSP_cert_to_id_def OCSP_cert_id_new_def test_lib_def test_md_def
        test_issuer_def test_cid_def toy_digest_def NID_undef_def
        V_ASN1_NULL_def ASN1_OCTET_STRING_set_def upt_rec)

lemma test_run_other_serial:
  "OCSP_cert_to_id test_lib (Some test_md)
     (Some (test_subject\<lparr>X509_get0_serialNumber := \<lparr>str_type = 2, data = [0x7F], flags = 0\<rparr>\<rparr>))
     test_issuer = Some (test_cid\<lparr>serialNumber := \<lparr>str_type = 2, data = [0x7F], flags = 0\<rparr>\<rparr>)"
  by (simp add: OCSP_cert_to_id_def OCSP_cert_id_new_def test_lib_def test_md_def
        test_subject_def test_issuer_def test_cid_def toy_digest_def NID_undef_def
        V_ASN1_NULL_def ASN1_OCTET_STRING_set_def ASN1_STRING_copy_def upt_rec)

lemma toy_digest_length: "toy_digest bs d = Some h \<Longrightarrow> length h = EVP_MD_size d"
  by (auto simp: toy_digest_def)

subsection \<open>The issuer-key hash\<close>

text \<open>
  C1. Whatever the digest and the issuer certificate, the issuer-key hash of the
  identifier is the digest of the content octets of the issuer's public-key bit string,
  \<open>data\<close>, and of nothing else: the tag (\<open>str_type\<close>) and the length are not in the
  input of the digest. It holds of \<^verbatim>\<open>OCSP_cert_id_new\<close> for the bit string it is given,
  and of \<^verbatim>\<open>OCSP_cert_to_id\<close> for the bit string of the issuer certificate, with SHA-1
  as the digest when none is given.
\<close>

theorem issuer_key_hash_over_content_octets:
  "(OCSP_cert_id_new L dgst issuerName issuerKey serialNum = Some cid \<longrightarrow>
      EVP_Digest L (data issuerKey) dgst = Some (data (issuerKeyHash cid))) \<and>
   (OCSP_cert_to_id L dgst_opt subject issuer = Some cid' \<longrightarrow>
      EVP_Digest L (data (X509_get0_pubkey_bitstr issuer))
        (case dgst_opt of None \<Rightarrow> EVP_sha1 L | Some d \<Rightarrow> d) = Some (data (issuerKeyHash cid')))"
  by (auto simp: OCSP_cert_to_id_unfold OCSP_cert_id_new_Some_iff)

theorem issuer_key_hash_over_content_octets_witness:
  "OCSP_cert_id_new test_lib test_md ''CA'' (X509_get0_pubkey_bitstr test_issuer)
     (Some (X509_get0_serialNumber test_subject)) = Some test_cid \<and>
   OCSP_cert_to_id test_lib (Some test_md) (Some test_subject) test_issuer = Some test_cid \<and>
   EVP_Digest test_lib [0x30, 0x0A, 0x02] test_md = Some [0x3C, 0x3D, 0x3E, 0x3F] \<and>
   data (issuerKeyHash test_cid) = [0x3C, 0x3D, 0x3E, 0x3F]"
  using issuer_key_hash_over_content_octets
          [of test_lib test_md "''CA''" "X509_get0_pubkey_bitstr test_issuer"
              "Some (X509_get0_serialNumber test_subject)" test_cid
              "Some test_md" "Some test_subject" test_issuer test_cid]
        test_run test_run_raw
  by (simp add: test_issuer_def test_cid_def)

subsection \<open>The name and the serial number\<close>

text \<open>
  C2. With a subject certificate, the name that is hashed is the issuer field of the
  subject and the serial number of the identifier is the serial number of the subject.
  Without one, the name that is hashed is the subject field of the issuer certificate
  and the serial number of the identifier is still the one the fresh identifier came
  with: none is set.
\<close>

theorem name_and_serial_by_subject_presence:
  "(OCSP_cert_to_id L dgst (Some sub) issuer = Some cid \<longrightarrow>
      X509_NAME_digest L (X509_get_issuer_name sub)
        (case dgst of None \<Rightarrow> EVP_sha1 L | Some d \<Rightarrow> d) = Some (data (issuerNameHash cid)) \<and>
      serialNumber cid = X509_get0_serialNumber sub) \<and>
   (OCSP_cert_to_id L dgst None issuer = Some cid' \<longrightarrow>
      X509_NAME_digest L (X509_get_subject_name issuer)
        (case dgst of None \<Rightarrow> EVP_sha1 L | Some d \<Rightarrow> d) = Some (data (issuerNameHash cid')) \<and>
      (\<exists>fresh. OCSP_CERTID_new L = Some fresh \<and> serialNumber cid' = serialNumber fresh))"
  by (auto simp: OCSP_cert_to_id_unfold OCSP_cert_id_new_Some_iff)

theorem name_and_serial_by_subject_presence_witness:
  "OCSP_cert_to_id test_lib (Some test_md) (Some test_subject) test_issuer = Some test_cid \<and>
   X509_NAME_digest test_lib ''CA'' test_md = Some (data (issuerNameHash test_cid)) \<and>
   serialNumber test_cid = \<lparr>str_type = 2, data = [0x12, 0x34], flags = 0\<rparr> \<and>
   OCSP_cert_to_id test_lib (Some test_md) None test_issuer =
     Some (test_cid\<lparr>serialNumber := \<lparr>str_type = 2, data = [], flags = 0\<rparr>\<rparr>) \<and>
   X509_NAME_digest test_lib ''CA'' test_md =
     Some (data (issuerNameHash (test_cid\<lparr>serialNumber := \<lparr>str_type = 2, data = [], flags = 0\<rparr>\<rparr>))) \<and>
   map_option serialNumber (OCSP_CERTID_new test_lib) = Some \<lparr>str_type = 2, data = [], flags = 0\<rparr>"
  using name_and_serial_by_subject_presence
          [of test_lib "Some test_md" test_subject test_issuer test_cid
              "test_cid\<lparr>serialNumber := \<lparr>str_type = 2, data = [], flags = 0\<rparr>\<rparr>"]
        test_run test_run_no_subject
  by (auto simp: test_issuer_def test_subject_def test_cid_def)

subsection \<open>The algorithm and the lengths of the hashes\<close>

text \<open>
  C3. Let the library keep the declared output length of the digest \<open>D\<close>: whatever
  \<^verbatim>\<open>EVP_Digest\<close> and \<^verbatim>\<open>X509_NAME_digest\<close> produce with \<open>D\<close> has \<open>EVP_MD_size D\<close>
  bytes. Then an identifier built with \<open>D\<close> names, as its hash algorithm, the object
  registered for \<open>D\<close>, and both of its hashes have exactly \<open>EVP_MD_size D\<close> bytes.
\<close>

theorem cert_id_algorithm_and_hash_lengths:
  assumes "\<forall>bs h. EVP_Digest L bs D = Some h \<longrightarrow> length h = EVP_MD_size D"
      and "\<forall>n h. X509_NAME_digest L n D = Some h \<longrightarrow> length h = EVP_MD_size D"
      and "OCSP_cert_to_id L (Some D) subject issuer = Some cid"
  shows "algorithm (hashAlgorithm cid) = OBJ_nid2obj L (EVP_MD_type D) \<and>
         algorithm (hashAlgorithm cid) \<noteq> None \<and>
         length (data (issuerNameHash cid)) = EVP_MD_size D \<and>
         length (data (issuerKeyHash cid)) = EVP_MD_size D"
  using assms by (auto simp: OCSP_cert_to_id_unfold OCSP_cert_id_new_Some_iff)

theorem cert_id_algorithm_and_hash_lengths_witness:
  "OCSP_cert_to_id test_lib (Some test_md) (Some test_subject) test_issuer = Some test_cid \<and>
   algorithm (hashAlgorithm test_cid) = OBJ_nid2obj test_lib 672 \<and>
   length (data (issuerNameHash test_cid)) = 4 \<and>
   length (data (issuerKeyHash test_cid)) = 4 \<and>
   EVP_MD_size test_md = 4 \<and> EVP_MD_type test_md = 672"
proof -
  have a: "\<forall>bs h. EVP_Digest test_lib bs test_md = Some h \<longrightarrow> length h = EVP_MD_size test_md"
    by (simp add: test_lib_def toy_digest_length)
  have b: "\<forall>n h. X509_NAME_digest test_lib n test_md = Some h \<longrightarrow> length h = EVP_MD_size test_md"
    by (simp add: test_lib_def toy_digest_length)
  from cert_id_algorithm_and_hash_lengths [OF a b test_run] test_run
  show ?thesis by (simp add: test_md_def)
qed

subsection \<open>The default digest\<close>

text \<open>
  C4. A call of \<^verbatim>\<open>OCSP_cert_to_id\<close> with no digest gives what the call with
  \<^verbatim>\<open>EVP_sha1()\<close> gives, success or failure.
\<close>

theorem null_digest_is_sha1:
  "OCSP_cert_to_id L None subject issuer = OCSP_cert_to_id L (Some (EVP_sha1 L)) subject issuer"
  by (simp add: OCSP_cert_to_id_def)

subsection \<open>Failure\<close>

text \<open>
  C5, as the code has it. The construction fails, by returning \<^verbatim>\<open>NULL\<close> (the one
  failure it reports, whatever the cause), exactly when a step fails: the digest's NID
  is \<^verbatim>\<open>NID_undef\<close>, the object table has no object for the NID, an allocation fails or
  a digest call fails. Nothing else makes it fail; an object without identifier octets
  does not. And it is all or nothing: what is returned is \<^verbatim>\<open>NULL\<close> or an identifier
  with every part in place, the table's object for the digest with a parameter, both
  hashes, and the serial number when one was given.
\<close>

theorem cert_id_new_all_or_nothing:
  "(OCSP_cert_id_new L dgst issuerName issuerKey serialNum = None \<longleftrightarrow>
      OCSP_CERTID_new L = None \<or>
      EVP_MD_type dgst = NID_undef \<or>
      OBJ_nid2obj L (EVP_MD_type dgst) = None \<or>
      ASN1_TYPE_new L = None \<or>
      X509_NAME_digest L issuerName dgst = None \<or>
      \<not> alloc_ok L Into_issuerNameHash \<or>
      EVP_Digest L (data issuerKey) dgst = None \<or>
      \<not> alloc_ok L Into_issuerKeyHash \<or>
      (serialNum \<noteq> None \<and> \<not> alloc_ok L Into_serialNumber)) \<and>
   (OCSP_cert_id_new L dgst issuerName issuerKey serialNum = None \<or>
    (\<exists>c obj par.
       OCSP_cert_id_new L dgst issuerName issuerKey serialNum = Some c \<and>
       EVP_MD_type dgst \<noteq> NID_undef \<and>
       OBJ_nid2obj L (EVP_MD_type dgst) = Some obj \<and>
       algorithm (hashAlgorithm c) = Some obj \<and>
       parameter (hashAlgorithm c) = Some par \<and>
       X509_NAME_digest L issuerName dgst = Some (data (issuerNameHash c)) \<and>
       EVP_Digest L (data issuerKey) dgst = Some (data (issuerKeyHash c)) \<and>
       (serialNum = None \<or> serialNum = Some (serialNumber c))))"
proof (intro conjI)
  have "(\<exists>c. OCSP_cert_id_new L dgst issuerName issuerKey serialNum = Some c) \<longleftrightarrow>
      \<not> (OCSP_CERTID_new L = None \<or> EVP_MD_type dgst = NID_undef \<or>
      OBJ_nid2obj L (EVP_MD_type dgst) = None \<or> ASN1_TYPE_new L = None \<or>
      X509_NAME_digest L issuerName dgst = None \<or> \<not> alloc_ok L Into_issuerNameHash \<or>
      EVP_Digest L (data issuerKey) dgst = None \<or> \<not> alloc_ok L Into_issuerKeyHash \<or>
      (serialNum \<noteq> None \<and> \<not> alloc_ok L Into_serialNumber))"
    unfolding OCSP_cert_id_new_Some_iff by auto
  then show "OCSP_cert_id_new L dgst issuerName issuerKey serialNum = None \<longleftrightarrow>
      OCSP_CERTID_new L = None \<or> EVP_MD_type dgst = NID_undef \<or>
      OBJ_nid2obj L (EVP_MD_type dgst) = None \<or> ASN1_TYPE_new L = None \<or>
      X509_NAME_digest L issuerName dgst = None \<or> \<not> alloc_ok L Into_issuerNameHash \<or>
      EVP_Digest L (data issuerKey) dgst = None \<or> \<not> alloc_ok L Into_issuerKeyHash \<or>
      (serialNum \<noteq> None \<and> \<not> alloc_ok L Into_serialNumber)"
    by (cases "OCSP_cert_id_new L dgst issuerName issuerKey serialNum") simp_all
next
  show "OCSP_cert_id_new L dgst issuerName issuerKey serialNum = None \<or>
    (\<exists>c obj par.
       OCSP_cert_id_new L dgst issuerName issuerKey serialNum = Some c \<and>
       EVP_MD_type dgst \<noteq> NID_undef \<and>
       OBJ_nid2obj L (EVP_MD_type dgst) = Some obj \<and>
       algorithm (hashAlgorithm c) = Some obj \<and>
       parameter (hashAlgorithm c) = Some par \<and>
       X509_NAME_digest L issuerName dgst = Some (data (issuerNameHash c)) \<and>
       EVP_Digest L (data issuerKey) dgst = Some (data (issuerKeyHash c)) \<and>
       (serialNum = None \<or> serialNum = Some (serialNumber c)))"
  proof (cases "OCSP_cert_id_new L dgst issuerName issuerKey serialNum")
    case None
    then show ?thesis by simp
  next
    case (Some c)
    then show ?thesis
      by (auto simp: OCSP_cert_id_new_Some_iff)
  qed
qed

theorem cert_id_new_all_or_nothing_witness:
  "EVP_MD_type unregistered_md = NID_undef \<and>
   OCSP_cert_id_new test_lib unregistered_md ''CA'' (X509_get0_pubkey_bitstr test_issuer) None = None \<and>
   OCSP_cert_id_new test_lib test_md ''CA'' (X509_get0_pubkey_bitstr test_issuer)
     (Some (X509_get0_serialNumber test_subject)) = Some test_cid \<and>
   OBJ_nid2obj test_lib (EVP_MD_type test_md) = algorithm (hashAlgorithm test_cid) \<and>
   X509_NAME_digest test_lib ''CA'' test_md = Some (data (issuerNameHash test_cid)) \<and>
   EVP_Digest test_lib (data (X509_get0_pubkey_bitstr test_issuer)) test_md
     = Some (data (issuerKeyHash test_cid)) \<and>
   X509_get0_serialNumber test_subject = serialNumber test_cid"
  using cert_id_new_all_or_nothing
          [of test_lib unregistered_md "''CA''" "X509_get0_pubkey_bitstr test_issuer" None]
        cert_id_new_all_or_nothing
          [of test_lib test_md "''CA''" "X509_get0_pubkey_bitstr test_issuer"
              "Some (X509_get0_serialNumber test_subject)"]
        test_run_raw
  by (auto simp: unregistered_md_def NID_undef_def)

text \<open>
  The claim as it was worded, failure whenever the digest has no registered object
  identifier, does not hold: for a digest whose table object has no identifier octets,
  neither test of the function fires, and an identifier is returned whose algorithm is
  that object.
\<close>

theorem oidless_digest_accepted_counterexample:
  "map_option oid (OBJ_nid2obj oidless_lib (EVP_MD_type md5_sha1_md)) = Some [] \<and>
   OCSP_cert_id_new oidless_lib md5_sha1_md ''CA'' (X509_get0_pubkey_bitstr test_issuer) None \<noteq> None \<and>
   map_option (\<lambda>c. algorithm (hashAlgorithm c))
     (OCSP_cert_id_new oidless_lib md5_sha1_md ''CA'' (X509_get0_pubkey_bitstr test_issuer) None)
     = Some (Some \<lparr>nid = 114, oid = []\<rparr>)"
  by (simp add: OCSP_cert_id_new_def oidless_lib_def test_lib_def md5_sha1_md_def
        test_issuer_def toy_digest_def NID_undef_def V_ASN1_NULL_def ASN1_OCTET_STRING_set_def)

subsection \<open>The serial number and nothing else\<close>

text \<open>
  C6. For a fixed digest and issuer certificate, two subject certificates that differ in
  the serial number alone give identifiers that differ in the serial number alone: the
  second is the first with the new serial number, and the two hashes (and the
  algorithm) are the same.
\<close>

theorem serial_change_frames_hashes:
  assumes "OCSP_cert_to_id L dgst (Some sub) issuer = Some c"
      and "OCSP_cert_to_id L dgst (Some (sub\<lparr>X509_get0_serialNumber := sn\<rparr>)) issuer = Some c'"
  shows "c' = c\<lparr>serialNumber := sn\<rparr> \<and>
         issuerNameHash c' = issuerNameHash c \<and>
         issuerKeyHash c' = issuerKeyHash c \<and>
         hashAlgorithm c' = hashAlgorithm c"
  using assms by (auto simp: OCSP_cert_to_id_unfold OCSP_cert_id_new_Some_iff)

theorem serial_change_frames_hashes_witness:
  "OCSP_cert_to_id test_lib (Some test_md) (Some test_subject) test_issuer = Some test_cid \<and>
   OCSP_cert_to_id test_lib (Some test_md)
     (Some (test_subject\<lparr>X509_get0_serialNumber := \<lparr>str_type = 2, data = [0x7F], flags = 0\<rparr>\<rparr>))
     test_issuer = Some (test_cid\<lparr>serialNumber := \<lparr>str_type = 2, data = [0x7F], flags = 0\<rparr>\<rparr>) \<and>
   issuerNameHash (test_cid\<lparr>serialNumber := \<lparr>str_type = 2, data = [0x7F], flags = 0\<rparr>\<rparr>)
     = issuerNameHash test_cid \<and>
   issuerKeyHash (test_cid\<lparr>serialNumber := \<lparr>str_type = 2, data = [0x7F], flags = 0\<rparr>\<rparr>)
     = issuerKeyHash test_cid"
  using serial_change_frames_hashes [OF test_run test_run_other_serial] test_run test_run_other_serial
  by simp

subsection \<open>The status codes\<close>

text \<open>
  C7. The statuses successful, malformed request, internal error, try later, signature
  required and unauthorized have the codes 0, 1, 2, 3, 5 and 6; no status has the code 4.
\<close>

theorem response_status_codes:
  "OCSP_RESPONSE_STATUS_SUCCESSFUL = 0 \<and>
   OCSP_RESPONSE_STATUS_MALFORMEDREQUEST = 1 \<and>
   OCSP_RESPONSE_STATUS_INTERNALERROR = 2 \<and>
   OCSP_RESPONSE_STATUS_TRYLATER = 3 \<and>
   OCSP_RESPONSE_STATUS_SIGREQUIRED = 5 \<and>
   OCSP_RESPONSE_STATUS_UNAUTHORIZED = 6 \<and>
   4 \<notin> {OCSP_RESPONSE_STATUS_SUCCESSFUL, OCSP_RESPONSE_STATUS_MALFORMEDREQUEST,
         OCSP_RESPONSE_STATUS_INTERNALERROR, OCSP_RESPONSE_STATUS_TRYLATER,
         OCSP_RESPONSE_STATUS_SIGREQUIRED, OCSP_RESPONSE_STATUS_UNAUTHORIZED}"
  by (simp add: OCSP_RESPONSE_STATUS_SUCCESSFUL_def OCSP_RESPONSE_STATUS_MALFORMEDREQUEST_def
        OCSP_RESPONSE_STATUS_INTERNALERROR_def OCSP_RESPONSE_STATUS_TRYLATER_def
        OCSP_RESPONSE_STATUS_SIGREQUIRED_def OCSP_RESPONSE_STATUS_UNAUTHORIZED_def)

subsection \<open>Trailing bytes\<close>

lemma der_header_append:
  "der_header enc = Some x \<Longrightarrow> der_header (enc @ extra) = Some x"
  by (auto simp: der_header_def Let_def split: list.splits if_splits)

text \<open>
  C8. On the reader as the spec describes it: when a buffer decodes to a response, the
  same buffer followed by one byte or more does not; the result is
  \<open>TrailingDataError\<close>.
\<close>

theorem trailing_bytes_rejected:
  assumes "d2i_OCSP_RESPONSE_bio d2i enc = Inr r" and "extra \<noteq> []"
  shows "d2i_OCSP_RESPONSE_bio d2i (enc @ extra) = Inl TrailingDataError"
proof -
  from assms(1) obtain hlen len where h: "der_header enc = Some (hlen, len)"
    and l: "hlen + len \<le> length enc" and d: "drop (hlen + len) enc = []"
    by (auto simp: d2i_OCSP_RESPONSE_bio_def ASN1_d2i_bio_of_def
             split: option.splits if_splits)
  from d l have "length enc = hlen + len" by simp
  with assms(2) have "drop (hlen + len) (enc @ extra) \<noteq> []" by simp
  with der_header_append [OF h, of extra] l show ?thesis
    by (simp add: d2i_OCSP_RESPONSE_bio_def ASN1_d2i_bio_of_def)
qed

theorem trailing_bytes_rejected_witness:
  "d2i_OCSP_RESPONSE_bio status_only_d2i [0x30, 0x03, 0x0A, 0x01, 0x01] = Inr 1 \<and>
   d2i_OCSP_RESPONSE_bio status_only_d2i ([0x30, 0x03, 0x0A, 0x01, 0x01] @ [0x00])
     = Inl TrailingDataError"
proof -
  have a: "d2i_OCSP_RESPONSE_bio status_only_d2i [0x30, 0x03, 0x0A, 0x01, 0x01] = Inr 1"
    by (simp add: d2i_OCSP_RESPONSE_bio_def ASN1_d2i_bio_of_def der_header_def
          status_only_d2i_def OCSP_RESPONSE_STATUS_MALFORMEDREQUEST_def)
  have b: "[0x00 :: byte] \<noteq> []" by simp
  from trailing_bytes_rejected [OF a b] a show ?thesis by simp
qed

subsection \<open>Extraction and delegation\<close>

text \<open>
  C9. \<^verbatim>\<open>OCSP_cert_to_id\<close> returns what \<^verbatim>\<open>OCSP_cert_id_new\<close> returns on the fields it
  extracts: the digest, or SHA-1 for none; the name and the serial number chosen by the
  presence of the subject; the public-key bit string of the issuer. It adds nothing.
\<close>

theorem cert_to_id_is_delegation:
  "OCSP_cert_to_id L d s i = cert_to_id_by_delegation L d s i"
  by (cases s) (simp_all add: OCSP_cert_to_id_def cert_to_id_by_delegation_def)

subsection \<open>The parameter of the hash algorithm\<close>

text \<open>
  C10. In every identifier that \<^verbatim>\<open>OCSP_cert_id_new\<close> returns, the parameter of the hash
  algorithm is present and its type is the ASN.1 NULL type.
\<close>

theorem hash_algorithm_parameter_is_null_type:
  "OCSP_cert_id_new L dgst issuerName issuerKey serialNum = Some cid \<Longrightarrow>
     \<exists>par. parameter (hashAlgorithm cid) = Some par \<and> type par = V_ASN1_NULL"
  by (auto simp: OCSP_cert_id_new_Some_iff)

theorem hash_algorithm_parameter_is_null_type_witness:
  "OCSP_cert_id_new test_lib test_md ''CA'' (X509_get0_pubkey_bitstr test_issuer)
     (Some (X509_get0_serialNumber test_subject)) = Some test_cid \<and>
   parameter (hashAlgorithm test_cid) = Some \<lparr>type = V_ASN1_NULL, value_ptr = None\<rparr>"
  using hash_algorithm_parameter_is_null_type [OF test_run_raw] test_run_raw
  by (simp add: test_cid_def V_ASN1_NULL_def)

end
